theory Spec2Isabelle
  imports Main
begin

section \<open>Go values\<close>

text \<open>
  Go strings are byte sequences, modelled as \<open>string\<close> (a list of 8-bit characters).
  Go's \<open>int\<close> is modelled as \<open>int\<close>: the only arithmetic on it in the functions below is
  a loop counter that counts from 0 up to a bound of the same type, so it never wraps.
  A nil slice and an empty slice are both the empty list, a nil map and an empty map are
  both \<open>Map.empty\<close> (the code only ever asks for their \<open>len\<close>), a pointer to a struct
  that may be nil is an \<open>option\<close>.
\<close>

text \<open>
  An \<open>error\<close> value: one constructor for each \<open>fmt.Errorf\<close> call of the repository, carrying
  the arguments of that call, and \<open>ExternalError\<close> for an error made outside the repository
  (the command runner, the YAML and JSON libraries), carrying its message.
\<close>

datatype error =
    ExternalError string
  | ClusterNameRequired
      \<comment> \<open>"cluster name is required"\<close>
  | MarshalingConfig error
      \<comment> \<open>"marshaling config to YAML: %w"\<close>
  | InvalidYAML error
      \<comment> \<open>"invalid YAML: %w"\<close>
  | ExpectedKind string
      \<comment> \<open>"expected kind 'Cluster', got %q"\<close>
  | ExpectedAPIVersion string
      \<comment> \<open>"expected apiVersion 'kind.x-k8s.io/v1alpha4', got %q"\<close>
  | InvalidNodeRole string
      \<comment> \<open>"invalid node role %q; must be 'control-plane' or 'worker'"\<close>
  | ControlPlaneRequired
      \<comment> \<open>"at least one control-plane node is required"\<close>
  | DockerInfoFailed error
      \<comment> \<open>"docker info failed: %w"\<close>
  | ParsingDockerInfo error
      \<comment> \<open>"parsing docker info: %w"\<close>
  | PodmanInfoFailed error
      \<comment> \<open>"podman info failed: %w"\<close>
  | ParsingPodmanInfo error
      \<comment> \<open>"parsing podman info: %w"\<close>
  | ExecOnNodeFailed string error string
      \<comment> \<open>"exec on node %q failed: %w\nOutput: %s"\<close>
  | KindGetNodesFailed error
      \<comment> \<open>"kind get nodes failed: %w"\<close>
  | GettingClusterNodes error
      \<comment> \<open>"getting cluster nodes: %w"\<close>
  | RegistryOverrideRequired
      \<comment> \<open>"at least one registry override is required"\<close>
  | NoRegistryCredentials string
      \<comment> \<open>"no registry credentials found; searched paths: %s"\<close>

subsection \<open>Package strings\<close>

definition HasPrefix :: "string \<Rightarrow> string \<Rightarrow> bool" where
  "HasPrefix s pre = (length s \<ge> length pre \<and> take (length pre) s = pre)"

text \<open>\<open>strings.TrimPrefix\<close>\<close>

definition TrimPrefix :: "string \<Rightarrow> string \<Rightarrow> string" where
  "TrimPrefix s pre = (if HasPrefix s pre then drop (length pre) s else s)"

text \<open>\<open>strings.Contains\<close>: some suffix of \<open>s\<close> starts with \<open>substr\<close>.\<close>

fun Contains :: "string \<Rightarrow> string \<Rightarrow> bool" where
  "Contains [] substr = (substr = [])"
| "Contains (c # s) substr = (HasPrefix (c # s) substr \<or> Contains s substr)"


text \<open>\<open>strings.Join\<close>\<close>

fun strings_Join :: "string list \<Rightarrow> string \<Rightarrow> string" where
  "strings_Join [] sep = ''''"
| "strings_Join [elem] sep = elem"
| "strings_Join (elem # elems) sep = elem @ sep @ strings_Join elems sep"

section \<open>internal/kind: cluster configuration\<close>

record PortMapping =
  pm_HostPort :: int
  pm_ContainerPort :: int
  pm_ListenAddress :: string
  pm_Protocol :: string

record Mount =
  mnt_HostPath :: string
  mnt_ContainerPath :: string
  mnt_ReadOnly :: bool
  mnt_Propagation :: string

record NodeConfig =
  node_Role :: string
  node_Image :: string
  node_ExtraPortMappings :: "PortMapping list"
  node_ExtraMounts :: "Mount list"
  node_Labels :: "string \<rightharpoonup> string"
  node_KubeadmConfigPatches :: "string list"

record NetworkConfig =
  net_IPFamily :: string
  net_APIServerAddress :: string
  net_APIServerPort :: int
  net_PodSubnet :: string
  net_ServiceSubnet :: string
  net_DisableDefaultCNI :: bool
  net_KubeProxyMode :: string

record ClusterConfig =
  cfg_Kind :: string
  cfg_APIVersion :: string
  cfg_Name :: string
  cfg_Nodes :: "NodeConfig list"
  cfg_Networking :: "NetworkConfig option"
  cfg_FeatureGates :: "string \<rightharpoonup> bool"
  cfg_ContainerdConfigPatches :: "string list"

record ConfigOptions =
  opts_ClusterName :: string
  opts_NumWorkers :: int
  opts_NumControlPlanes :: int
  opts_KubernetesVersion :: string
  opts_PortMappings :: "PortMapping list"
  opts_ExtraMounts :: "Mount list"
  opts_ContainerdPatches :: "string list"
  opts_PodSubnet :: string
  opts_ServiceSubnet :: string
  opts_DisableDefaultCNI :: bool
  opts_Labels :: "string \<rightharpoonup> string"
  opts_IPFamily :: string
  opts_KubeProxyMode :: string
  opts_APIServerPort :: int

text \<open>The zero values of the structs, as Go's composite literals leave the unnamed fields.\<close>

definition NodeConfig_zero :: NodeConfig where
  "NodeConfig_zero =
     \<lparr>node_Role = '''', node_Image = '''', node_ExtraPortMappings = [],
      node_ExtraMounts = [], node_Labels = Map.empty, node_KubeadmConfigPatches = []\<rparr>"

definition ClusterConfig_zero :: ClusterConfig where
  "ClusterConfig_zero =
     \<lparr>cfg_Kind = '''', cfg_APIVersion = '''', cfg_Name = '''', cfg_Nodes = [],
      cfg_Networking = None, cfg_FeatureGates = Map.empty,
      cfg_ContainerdConfigPatches = []\<rparr>"

definition NetworkConfig_zero :: NetworkConfig where
  "NetworkConfig_zero =
     \<lparr>net_IPFamily = '''', net_APIServerAddress = '''', net_APIServerPort = 0,
      net_PodSubnet = '''', net_ServiceSubnet = '''', net_DisableDefaultCNI = False,
      net_KubeProxyMode = ''''\<rparr>"

definition ConfigOptions_zero :: ConfigOptions where
  "ConfigOptions_zero =
     \<lparr>opts_ClusterName = '''', opts_NumWorkers = 0, opts_NumControlPlanes = 0,
      opts_KubernetesVersion = '''', opts_PortMappings = [], opts_ExtraMounts = [],
      opts_ContainerdPatches = [], opts_PodSubnet = '''', opts_ServiceSubnet = '''',
      opts_DisableDefaultCNI = False, opts_Labels = Map.empty, opts_IPFamily = '''',
      opts_KubeProxyMode = '''', opts_APIServerPort = 0\<rparr>"

definition kindNodeImage :: "string \<Rightarrow> string" where
  "kindNodeImage version0 =
     (let version = (if \<not> HasPrefix version0 ''v'' then ''v'' @ version0 else version0)
      in ''kindest/node:'' @ version)"

text \<open>The body of the first loop of \<open>GenerateConfig\<close>, at counter \<open>i\<close>.\<close>

definition control_plane_node :: "ConfigOptions \<Rightarrow> int \<Rightarrow> NodeConfig" where
  "control_plane_node opts i =
     (let node = NodeConfig_zero\<lparr>node_Role := ''control-plane''\<rparr>;
          node = (if opts_KubernetesVersion opts \<noteq> ''''
                  then node\<lparr>node_Image := kindNodeImage (opts_KubernetesVersion opts)\<rparr>
                  else node);
          node = (if i = 0 \<and> length (opts_PortMappings opts) > 0
                  then node\<lparr>node_ExtraPortMappings := opts_PortMappings opts\<rparr>
                  else node);
          node = (if length (opts_ExtraMounts opts) > 0
                  then node\<lparr>node_ExtraMounts := opts_ExtraMounts opts\<rparr>
                  else node);
          node = (if opts_Labels opts \<noteq> Map.empty
                  then node\<lparr>node_Labels := opts_Labels opts\<rparr>
                  else node)
      in node)"

text \<open>The body of the second loop of \<open>GenerateConfig\<close>.\<close>

definition worker_node :: "ConfigOptions \<Rightarrow> NodeConfig" where
  "worker_node opts =
     (let node = NodeConfig_zero\<lparr>node_Role := ''worker''\<rparr>;
          node = (if opts_KubernetesVersion opts \<noteq> ''''
                  then node\<lparr>node_Image := kindNodeImage (opts_KubernetesVersion opts)\<rparr>
                  else node);
          node = (if length (opts_ExtraMounts opts) > 0
                  then node\<lparr>node_ExtraMounts := opts_ExtraMounts opts\<rparr>
                  else node);
          node = (if opts_Labels opts \<noteq> Map.empty
                  then node\<lparr>node_Labels := opts_Labels opts\<rparr>
                  else node)
      in node)"

text \<open>
  \<open>for i := 0; i < opts.NumControlPlanes; i++ { ...; cfg.Nodes = append(cfg.Nodes, node) }\<close>,
  started at counter \<open>i\<close> with the nodes appended so far.
\<close>

function control_plane_loop :: "ConfigOptions \<Rightarrow> int \<Rightarrow> NodeConfig list \<Rightarrow> NodeConfig list" where
  "control_plane_loop opts i nodes =
     (if i < opts_NumControlPlanes opts
      then control_plane_loop opts (i + 1) (nodes @ [control_plane_node opts i])
      else nodes)"
  by pat_completeness auto
termination
  by (relation "measure (\<lambda>(opts, i, nodes). nat (opts_NumControlPlanes opts - i))") auto

text \<open>\<open>for i := 0; i < opts.NumWorkers; i++ { ...; cfg.Nodes = append(cfg.Nodes, node) }\<close>\<close>

function worker_loop :: "ConfigOptions \<Rightarrow> int \<Rightarrow> NodeConfig list \<Rightarrow> NodeConfig list" where
  "worker_loop opts i nodes =
     (if i < opts_NumWorkers opts
      then worker_loop opts (i + 1) (nodes @ [worker_node opts])
      else nodes)"
  by pat_completeness auto
termination
  by (relation "measure (\<lambda>(opts, i, nodes). nat (opts_NumWorkers opts - i))") auto

text \<open>
  \<open>GenerateConfig\<close> from the normalisation of the control-plane count to the value handed
  to \<open>yaml.Marshal\<close>: the document before it is serialised.
\<close>

definition GenerateConfig_doc :: "ConfigOptions \<Rightarrow> ClusterConfig" where
  "GenerateConfig_doc opts0 =
     (let opts = (if opts_NumControlPlanes opts0 \<le> 0
                  then opts0\<lparr>opts_NumControlPlanes := 1\<rparr> else opts0);
          cfg = ClusterConfig_zero
                  \<lparr>cfg_Kind := ''Cluster'',
                   cfg_APIVersion := ''kind.x-k8s.io/v1alpha4'',
                   cfg_Name := opts_ClusterName opts\<rparr>;
          cfg = cfg\<lparr>cfg_Nodes := control_plane_loop opts 0 (cfg_Nodes cfg)\<rparr>;
          cfg = cfg\<lparr>cfg_Nodes := worker_loop opts 0 (cfg_Nodes cfg)\<rparr>;
          cfg = (if opts_PodSubnet opts \<noteq> '''' \<or> opts_ServiceSubnet opts \<noteq> '''' \<or>
                    opts_DisableDefaultCNI opts \<or> opts_IPFamily opts \<noteq> '''' \<or>
                    opts_KubeProxyMode opts \<noteq> '''' \<or> opts_APIServerPort opts \<noteq> 0
                 then cfg\<lparr>cfg_Networking := Some (NetworkConfig_zero
                        \<lparr>net_PodSubnet := opts_PodSubnet opts,
                         net_ServiceSubnet := opts_ServiceSubnet opts,
                         net_DisableDefaultCNI := opts_DisableDefaultCNI opts,
                         net_IPFamily := opts_IPFamily opts,
                         net_KubeProxyMode := opts_KubeProxyMode opts,
                         net_APIServerPort := opts_APIServerPort opts\<rparr>)\<rparr>
                 else cfg);
          cfg = (if length (opts_ContainerdPatches opts) > 0
                 then cfg\<lparr>cfg_ContainerdConfigPatches := opts_ContainerdPatches opts\<rparr>
                 else cfg)
      in cfg)"

text \<open>
  \<open>GenerateConfig\<close>. The YAML library is not part of the repository: \<open>yaml.Marshal\<close> at
  type \<open>ClusterConfig\<close> is the parameter \<open>Marshal\<close>.
\<close>

definition GenerateConfig ::
    "(ClusterConfig \<Rightarrow> error + string) \<Rightarrow> ConfigOptions \<Rightarrow> error + string" where
  "GenerateConfig Marshal opts =
     (if opts_ClusterName opts = '''' then Inl ClusterNameRequired
      else (case Marshal (GenerateConfig_doc opts) of
              Inl err \<Rightarrow> Inl (MarshalingConfig err)
            | Inr data \<Rightarrow> Inr data))"

text \<open>
  The loop of \<open>ValidateConfig\<close> over \<open>cfg.Nodes\<close>, with the current value of
  \<open>hasControlPlane\<close>: \<open>Inl\<close> is the early return of an invalid role.
\<close>

fun ValidateConfig_nodes :: "NodeConfig list \<Rightarrow> bool \<Rightarrow> error + bool" where
  "ValidateConfig_nodes [] hasControlPlane = Inr hasControlPlane"
| "ValidateConfig_nodes (node # rest) hasControlPlane0 =
     (let hasControlPlane =
            (if node_Role node = ''control-plane'' then True else hasControlPlane0)
      in if node_Role node \<noteq> ''control-plane'' \<and> node_Role node \<noteq> ''worker''
         then Inl (InvalidNodeRole (node_Role node))
         else ValidateConfig_nodes rest hasControlPlane)"

text \<open>
  \<open>ValidateConfig\<close>; the result \<open>None\<close> is Go's nil error. \<open>yaml.Unmarshal\<close> into a zero
  \<open>ClusterConfig\<close> is the parameter \<open>Unmarshal\<close>.
\<close>

definition ValidateConfig ::
    "(string \<Rightarrow> error + ClusterConfig) \<Rightarrow> string \<Rightarrow> error option" where
  "ValidateConfig Unmarshal configYAML =
     (case Unmarshal configYAML of
        Inl err \<Rightarrow> Some (InvalidYAML err)
      | Inr cfg \<Rightarrow>
          if cfg_Kind cfg \<noteq> ''Cluster'' then Some (ExpectedKind (cfg_Kind cfg))
          else if cfg_APIVersion cfg \<noteq> ''kind.x-k8s.io/v1alpha4''
          then Some (ExpectedAPIVersion (cfg_APIVersion cfg))
          else (case ValidateConfig_nodes (cfg_Nodes cfg) False of
                  Inl err \<Rightarrow> Some err
                | Inr hasControlPlane \<Rightarrow>
                    if length (cfg_Nodes cfg) > 0 \<and> \<not> hasControlPlane
                    then Some ControlPlaneRequired
                    else None))"

text \<open>The control-plane count after \<open>GenerateConfig\<close> has normalised it.\<close>

definition normalized_control_planes :: "ConfigOptions \<Rightarrow> int" where
  "normalized_control_planes opts =
     (if opts_NumControlPlanes opts \<le> 0 then 1 else opts_NumControlPlanes opts)"


section \<open>internal/runtime: host and container runtime detection\<close>

type_synonym Runtime = string

definition RuntimeDocker :: Runtime where "RuntimeDocker = ''docker''"
definition RuntimePodman :: Runtime where "RuntimePodman = ''podman''"
definition RuntimeUnknown :: Runtime where "RuntimeUnknown = ''unknown''"

type_synonym Backend = string

definition BackendDockerDesktop :: Backend where "BackendDockerDesktop = ''docker-desktop''"
definition BackendColima :: Backend where "BackendColima = ''colima''"
definition BackendWSL :: Backend where "BackendWSL = ''wsl''"
definition BackendPodmanMachine :: Backend where "BackendPodmanMachine = ''podman-machine''"
definition BackendNative :: Backend where "BackendNative = ''native''"
definition BackendRancherDesktop :: Backend where "BackendRancherDesktop = ''rancher-desktop''"
definition BackendLima :: Backend where "BackendLima = ''lima''"
definition BackendUnknown :: Backend where "BackendUnknown = ''unknown''"

record OSInfo =
  os_OS :: string
  os_Arch :: string
  os_Platform :: string
  os_PlatformNote :: string

record RuntimeInfo =
  ri_Runtime :: Runtime
  ri_Backend :: Backend
  ri_Version :: string
  ri_SocketPath :: string
  ri_OS :: OSInfo
  ri_Available :: bool
  ri_Error :: string

definition OSInfo_zero :: OSInfo where
  "OSInfo_zero = \<lparr>os_OS = '''', os_Arch = '''', os_Platform = '''', os_PlatformNote = ''''\<rparr>"

definition RuntimeInfo_zero :: RuntimeInfo where
  "RuntimeInfo_zero =
     \<lparr>ri_Runtime = '''', ri_Backend = '''', ri_Version = '''', ri_SocketPath = '''',
      ri_OS = OSInfo_zero, ri_Available = False, ri_Error = ''''\<rparr>"

record dockerInfo =
  di_ServerVersion :: string
  di_OperatingSystem :: string
  di_OSType :: string
  di_Architecture :: string
  di_Name :: string

text \<open>The nested anonymous structs of \<open>podmanInfo\<close>, flattened.\<close>

record podmanInfo =
  pi_Host_RemoteSocket_Path :: string
  pi_Host_RemoteSocket_Exists :: bool
  pi_Host_OS :: string
  pi_Host_Arch :: string
  pi_Host_Version_Version :: string

text \<open>
  \<open>dockerConfig\<close> of package registry. \<open>Auths\<close> is the map as the \<open>range\<close> loop of
  \<open>FindCredentials\<close> visits it (Go leaves that order open): the registry names with their
  \<open>auth\<close> strings, in the order visited.
\<close>

record dockerConfig =
  dc_Auths :: "(string \<times> string) list"
  dc_CredsStore :: string
  dc_CredHelpers :: "string \<rightharpoonup> string"

text \<open>
  What the code takes from Go's standard library and is not modelled here, as parameters:
  \<open>strings.ToLower\<close> and \<open>strings.TrimSpace\<close> (both work on Unicode code points),
  \<open>strconv.Quote\<close> (the verb \<open>%q\<close>), \<open>filepath.Join\<close> (which also cleans the path), and
  \<open>json.Unmarshal\<close> into a zero value of each of the three structs above.
\<close>

record golib =
  ToLower :: "string \<Rightarrow> string"
  TrimSpace :: "string \<Rightarrow> string"
  Quote :: "string \<Rightarrow> string"
  filepath_Join :: "string list \<Rightarrow> string"
  Unmarshal_dockerInfo :: "string \<Rightarrow> error + dockerInfo"
  Unmarshal_podmanInfo :: "string \<Rightarrow> error + podmanInfo"
  Unmarshal_dockerConfig :: "string \<Rightarrow> error + dockerConfig"

text \<open>
  The machine the program runs on, as the code reads it: \<open>runtime.GOOS\<close>,
  \<open>runtime.GOARCH\<close>, \<open>os.Getenv\<close>, \<open>os.UserHomeDir\<close>, and for each path the error of
  \<open>os.Stat\<close> (\<open>None\<close> is nil) and the result of \<open>os.ReadFile\<close>. A Go result pair
  \<open>(value, error)\<close> is a pair whose second component is \<open>None\<close> for a nil error. The
  environment and the files are taken as fixed during one call.
\<close>

record host =
  GOOS :: string
  GOARCH :: string
  Getenv :: "string \<Rightarrow> string"
  UserHomeDir :: "string \<times> error option"
  Stat :: "string \<Rightarrow> error option"
  ReadFile :: "string \<Rightarrow> string \<times> error option"

text \<open>
  The interface \<open>CommandRunner\<close>. Running a command or looking one up may give a
  different answer each time, so both take the state \<open>'w\<close> of the world outside the
  program and return the next one. The context argument (cancellation) is not modelled.
\<close>

record 'w CommandRunner =
  Run :: "'w \<Rightarrow> string \<Rightarrow> string list \<Rightarrow> (string \<times> error option) \<times> 'w"
  LookPath :: "'w \<Rightarrow> string \<Rightarrow> (string \<times> error option) \<times> 'w"

record 'w Detector =
  det_runner :: "'w CommandRunner"


definition DetectOS :: "host \<Rightarrow> OSInfo" where
  "DetectOS H =
     (let info = OSInfo_zero\<lparr>os_OS := GOOS H, os_Arch := GOARCH H\<rparr>
      in if GOOS H = ''darwin'' then
           info\<lparr>os_Platform := ''macOS'',
                os_PlatformNote := ''Containers run in a VM. Docker Desktop, Colima, Podman Machine, or Lima required.''\<rparr>
         else if GOOS H = ''linux'' then
           info\<lparr>os_Platform := ''Linux'',
                os_PlatformNote := ''Native container support. Docker or Podman can run directly. WSL2 environment possible.''\<rparr>
         else if GOOS H = ''windows'' then
           info\<lparr>os_Platform := ''Windows'',
                os_PlatformNote := ''Containers typically run in WSL2 or Hyper-V via Docker Desktop or Podman Machine.''\<rparr>
         else
           info\<lparr>os_Platform := GOOS H,
                os_PlatformNote := ''Unsupported platform: '' @ GOOS H\<rparr>)"

definition isWSL :: "golib \<Rightarrow> host \<Rightarrow> bool" where
  "isWSL L H =
     (case ReadFile H ''/proc/version'' of
        (data, Some err) \<Rightarrow> False
      | (data, None) \<Rightarrow>
          (let lower = ToLower L data
           in Contains lower ''microsoft'' \<or> Contains lower ''wsl''))"

text \<open>
  The loop \<open>for _, c := range candidates { if _, err := os.Stat(c); err == nil { return c } }\<close>:
  the first candidate that exists, if any.
\<close>

fun first_existing :: "host \<Rightarrow> string list \<Rightarrow> string option" where
  "first_existing H [] = None"
| "first_existing H (c # candidates) =
     (if Stat H c = None then Some c else first_existing H candidates)"

definition detectDockerSocket :: "golib \<Rightarrow> host \<Rightarrow> string" where
  "detectDockerSocket L H =
     (let host = Getenv H ''DOCKER_HOST''
      in if host \<noteq> '''' then
           (if HasPrefix host ''unix://'' then TrimPrefix host ''unix://'' else host)
         else if GOOS H = ''darwin'' then
           (let home = fst (UserHomeDir H);
                candidates =
                  [filepath_Join L [home, ''.colima'', ''default'', ''docker.sock''],
                   filepath_Join L [home, ''.docker'', ''run'', ''docker.sock''],
                   filepath_Join L [home, ''.rd'', ''docker.sock''],
                   ''/var/run/docker.sock'']
            in case first_existing H candidates of
                 Some c \<Rightarrow> c
               | None \<Rightarrow> ''/var/run/docker.sock'')
         else if GOOS H = ''linux'' then
           (let xdg = Getenv H ''XDG_RUNTIME_DIR'';
                candidates = (if xdg \<noteq> '''' then [filepath_Join L [xdg, ''docker.sock'']] else []);
                candidates = candidates @ [''/var/run/docker.sock''];
                home = fst (UserHomeDir H);
                candidates = candidates @ [filepath_Join L [home, ''.docker'', ''run'', ''docker.sock'']]
            in case first_existing H candidates of
                 Some c \<Rightarrow> c
               | None \<Rightarrow> ''/var/run/docker.sock'')
         else if GOOS H = ''windows'' then
           [CHR 0x5C, CHR 0x5C, CHR ''.'', CHR 0x5C] @ ''pipe'' @ [CHR 0x5C] @ ''docker_engine''
         else ''/var/run/docker.sock'')"

definition detectDockerBackend :: "golib \<Rightarrow> host \<Rightarrow> dockerInfo \<Rightarrow> OSInfo \<Rightarrow> Backend" where
  "detectDockerBackend L H di osInfo =
     (let osField = ToLower L (di_OperatingSystem di);
          nameField = ToLower L (di_Name di)
      in if Contains osField ''docker desktop'' then BackendDockerDesktop
         else if Contains osField ''colima'' \<or> Contains nameField ''colima'' then BackendColima
         else if Contains nameField ''rancher'' then BackendRancherDesktop
         else if Contains nameField ''lima'' then BackendLima
         else
           (let socketPath = detectDockerSocket L H
            in if Contains socketPath ''.colima'' then BackendColima
               else if Contains socketPath ''.lima'' then BackendLima
               else if Contains socketPath ''.rd'' then BackendRancherDesktop
               else if os_OS osInfo = ''linux'' \<and> isWSL L H then BackendWSL
               else if os_OS osInfo = ''linux'' then BackendNative
               else BackendDockerDesktop))"

text \<open>\<open>Detector.detectPodmanBackend\<close>; it uses neither its receiver nor its context.\<close>

definition detectPodmanBackend :: "golib \<Rightarrow> host \<Rightarrow> OSInfo \<Rightarrow> Backend" where
  "detectPodmanBackend L H osInfo =
     (if os_OS osInfo = ''darwin'' \<or> os_OS osInfo = ''windows'' then BackendPodmanMachine
      else if os_OS osInfo = ''linux'' then
        (if isWSL L H then BackendWSL else BackendNative)
      else BackendUnknown)"

definition detectDocker ::
    "golib \<Rightarrow> host \<Rightarrow> 'w Detector \<Rightarrow> 'w \<Rightarrow> OSInfo \<Rightarrow> (RuntimeInfo \<times> error option) \<times> 'w" where
  "detectDocker L H d w osInfo =
     (let info = RuntimeInfo_zero
                   \<lparr>ri_Runtime := RuntimeDocker, ri_Available := True, ri_OS := osInfo\<rparr>
      in case Run (det_runner d) w ''docker'' [''info'', ''--format'', ''{{json .}}''] of
           ((out, Some err), w') \<Rightarrow> ((info, Some (DockerInfoFailed err)), w')
         | ((out, None), w') \<Rightarrow>
             (case Unmarshal_dockerInfo L out of
                Inl err \<Rightarrow> ((info, Some (ParsingDockerInfo err)), w')
              | Inr di \<Rightarrow>
                  (let info = info\<lparr>ri_Version := di_ServerVersion di\<rparr>;
                       info = info\<lparr>ri_Backend := detectDockerBackend L H di osInfo\<rparr>;
                       info = info\<lparr>ri_SocketPath := detectDockerSocket L H\<rparr>
                   in ((info, None), w'))))"

definition detectPodman ::
    "golib \<Rightarrow> host \<Rightarrow> 'w Detector \<Rightarrow> 'w \<Rightarrow> OSInfo \<Rightarrow> (RuntimeInfo \<times> error option) \<times> 'w" where
  "detectPodman L H d w osInfo =
     (let info = RuntimeInfo_zero
                   \<lparr>ri_Runtime := RuntimePodman, ri_Available := True, ri_OS := osInfo\<rparr>
      in case Run (det_runner d) w ''podman'' [''info'', ''--format'', ''json''] of
           ((out, Some err), w') \<Rightarrow> ((info, Some (PodmanInfoFailed err)), w')
         | ((out, None), w') \<Rightarrow>
             (case Unmarshal_podmanInfo L out of
                Inl err \<Rightarrow> ((info, Some (ParsingPodmanInfo err)), w')
              | Inr pi \<Rightarrow>
                  (let info = info\<lparr>ri_Version := pi_Host_Version_Version pi\<rparr>;
                       info = info\<lparr>ri_SocketPath := pi_Host_RemoteSocket_Path pi\<rparr>;
                       info = info\<lparr>ri_Backend := detectPodmanBackend L H osInfo\<rparr>
                   in ((info, None), w'))))"

text \<open>
  \<open>Detector.Detect\<close>. The result type has no error: the function always returns a
  \<open>RuntimeInfo\<close>.
\<close>

definition Detect :: "golib \<Rightarrow> host \<Rightarrow> 'w Detector \<Rightarrow> 'w \<Rightarrow> RuntimeInfo \<times> 'w" where
  "Detect L H d w =
     (let osInfo = DetectOS H;
          info = RuntimeInfo_zero
                   \<lparr>ri_Runtime := RuntimeUnknown, ri_Backend := BackendUnknown,
                    ri_Available := False, ri_OS := osInfo\<rparr>;
          unavailable =
            info\<lparr>ri_Error := ''no container runtime detected; install Docker or Podman''\<rparr>;
          tryPodman = (\<lambda>w.
            case LookPath (det_runner d) w ''podman'' of
              ((path, Some err), w') \<Rightarrow> (unavailable, w')
            | ((path, None), w') \<Rightarrow>
                (case detectPodman L H d w' osInfo of
                   ((ri, None), w'') \<Rightarrow> (ri, w'')
                 | ((ri, Some err), w'') \<Rightarrow> (unavailable, w'')))
      in case LookPath (det_runner d) w ''docker'' of
           ((path, Some err), w') \<Rightarrow> tryPodman w'
         | ((path, None), w') \<Rightarrow>
             (case detectDocker L H d w' osInfo of
                ((ri, None), w'') \<Rightarrow> (ri, w'')
              | ((ri, Some err), w'') \<Rightarrow> tryPodman w''))"

section \<open>internal/kind: network advice\<close>

record NetworkAdvice =
  adv_ListenAddress :: string
  adv_SupportsPortMapping :: bool
  adv_RequiresExtraConfig :: bool
  adv_Notes :: string
  adv_RecommendedPortRange :: string

text \<open>
  \<open>DetectNetworkConfig\<close>. \<open>Backend\<close> is a string type, so the \<open>switch\<close> is a chain of
  comparisons with the eight constants, in the order of its cases, and a default.
\<close>

definition DetectNetworkConfig :: "RuntimeInfo \<Rightarrow> NetworkAdvice" where
  "DetectNetworkConfig ri =
     (let advice = \<lparr>adv_ListenAddress = ''127.0.0.1'',
                     adv_SupportsPortMapping = True,
                     adv_RequiresExtraConfig = False,
                     adv_Notes = '''',
                     adv_RecommendedPortRange = ''30000-32767''\<rparr>
      in if ri_Backend ri = BackendDockerDesktop then
           advice\<lparr>adv_Notes :=
             ''Docker Desktop forwards container ports to the host automatically. '' @
             ''Use extraPortMappings in the Kind config to map NodePorts to host ports. '' @
             ''Bind to 127.0.0.1 for local-only access or 0.0.0.0 for LAN access.''\<rparr>
         else if ri_Backend ri = BackendColima then
           advice\<lparr>adv_Notes :=
             ''Colima forwards ports from the VM to the macOS host. '' @
             ''extraPortMappings work seamlessly. Bind to 127.0.0.1 for local access. '' @
             ''For LAN access, use 0.0.0.0 and ensure Colima network settings allow it.''\<rparr>
         else if ri_Backend ri = BackendWSL then
           advice\<lparr>adv_Notes :=
             ''WSL2 automatically forwards localhost ports from the Linux VM to Windows. '' @
             ''extraPortMappings on 127.0.0.1 are reachable from Windows host. '' @
             ''For LAN access, Windows firewall rules may need adjustment.''\<rparr>
         else if ri_Backend ri = BackendPodmanMachine then
           (let advice = advice\<lparr>adv_Notes :=
                  ''Podman Machine forwards ports from the VM to the host. '' @
                  ''extraPortMappings work with rootful Podman Machine. '' @
                  ''For rootless mode, additional port forwarding may be required.''\<rparr>
            in if os_OS (ri_OS ri) = ''darwin'' \<or> os_OS (ri_OS ri) = ''windows''
               then advice\<lparr>adv_RequiresExtraConfig := True\<rparr>
               else advice)
         else if ri_Backend ri = BackendNative then
           (if os_OS (ri_OS ri) = ''linux''
            then advice\<lparr>adv_ListenAddress := ''0.0.0.0'',
                   adv_Notes :=
                     ''Native Linux: containers are directly accessible. '' @
                     ''extraPortMappings bind to the host network interface. '' @
                     ''Container IPs are also directly reachable from the host.''\<rparr>
            else advice)
         else if ri_Backend ri = BackendRancherDesktop then
           advice\<lparr>adv_Notes :=
             ''Rancher Desktop forwards container ports similar to Docker Desktop. '' @
             ''extraPortMappings work as expected.''\<rparr>
         else if ri_Backend ri = BackendLima then
           advice\<lparr>adv_Notes :=
             ''Lima VMs forward ports to the macOS host. '' @
             ''extraPortMappings should work. Check Lima port forwarding configuration if issues arise.''\<rparr>
         else
           advice\<lparr>adv_Notes :=
             ''Unknown backend. extraPortMappings with 127.0.0.1 is a safe default.''\<rparr>)"

section \<open>internal/kind: the manager\<close>





section \<open>internal/registry: credentials\<close>

record CredentialInfo =
  ci_FilePath :: string
  ci_Registries :: "string list"
  ci_CredStore :: string
  ci_CredHelpers :: "string \<rightharpoonup> string"
  ci_InlineAuth :: bool
  ci_MountPath :: string
  ci_Source :: string
  ci_Notes :: string

definition CredentialInfo_zero :: CredentialInfo where
  "CredentialInfo_zero =
     \<lparr>ci_FilePath = '''', ci_Registries = [], ci_CredStore = '''', ci_CredHelpers = Map.empty,
      ci_InlineAuth = False, ci_MountPath = '''', ci_Source = '''', ci_Notes = ''''\<rparr>"

record candidatePath =
  cp_path :: string
  cp_source :: string

definition candidatePaths :: "golib \<Rightarrow> host \<Rightarrow> RuntimeInfo \<Rightarrow> candidatePath list" where
  "candidatePaths L H ri =
     (if ri_Runtime ri = RuntimePodman then
        (let paths = [];
             envPath = Getenv H ''REGISTRY_AUTH_FILE'';
             paths = (if envPath \<noteq> ''''
                      then paths @ [\<lparr>cp_path = envPath, cp_source = ''podman''\<rparr>] else paths);
             paths =
               (if GOOS H = ''linux'' then
                  (let xdg = Getenv H ''XDG_RUNTIME_DIR'';
                       paths = (if xdg \<noteq> ''''
                                then paths @ [\<lparr>cp_path = filepath_Join L [xdg, ''containers'', ''auth.json''],
                                               cp_source = ''podman''\<rparr>]
                                else paths)
                   in paths @ [\<lparr>cp_path = ''~/.config/containers/auth.json'', cp_source = ''podman''\<rparr>])
                else if GOOS H = ''darwin'' \<or> GOOS H = ''windows'' then
                  paths @ [\<lparr>cp_path = ''~/.config/containers/auth.json'', cp_source = ''podman''\<rparr>]
                else paths)
         in paths @ [\<lparr>cp_path = ''~/.docker/config.json'', cp_source = ''docker''\<rparr>])
      else if ri_Runtime ri = RuntimeDocker then
        (let paths = [];
             envPath = Getenv H ''DOCKER_CONFIG'';
             paths = (if envPath \<noteq> ''''
                      then paths @ [\<lparr>cp_path = filepath_Join L [envPath, ''config.json''],
                                     cp_source = ''docker''\<rparr>]
                      else paths)
         in paths @ [\<lparr>cp_path = ''~/.docker/config.json'', cp_source = ''docker''\<rparr>])
      else
        [\<lparr>cp_path = ''~/.docker/config.json'', cp_source = ''docker''\<rparr>,
         \<lparr>cp_path = ''~/.config/containers/auth.json'', cp_source = ''podman''\<rparr>])"

definition expandPath :: "golib \<Rightarrow> host \<Rightarrow> string \<Rightarrow> string" where
  "expandPath L H path =
     (if HasPrefix path ''~/'' then
        (case UserHomeDir H of
           (home, Some err) \<Rightarrow> path
         | (home, None) \<Rightarrow> filepath_Join L [home, drop 2 path])
      else path)"

definition pathStrings :: "golib \<Rightarrow> host \<Rightarrow> candidatePath list \<Rightarrow> string list" where
  "pathStrings L H paths = map (\<lambda>p. expandPath L H (cp_path p)) paths"

text \<open>
  The body of the loop of \<open>FindCredentials\<close> from the parsed file on: the
  \<open>CredentialInfo\<close> it returns for the candidate, its expanded path and the parsed file.
\<close>

definition credentialInfo :: "golib \<Rightarrow> candidatePath \<Rightarrow> string \<Rightarrow> dockerConfig \<Rightarrow> CredentialInfo" where
  "credentialInfo L candidate expanded cfg =
     (let info = CredentialInfo_zero
                   \<lparr>ci_FilePath := expanded,
                    ci_CredStore := dc_CredsStore cfg,
                    ci_CredHelpers := dc_CredHelpers cfg,
                    ci_MountPath := ''/var/lib/kubelet/config.json'',
                    ci_Source := cp_source candidate\<rparr>;
          info = info\<lparr>ci_Registries := ci_Registries info @ map fst (dc_Auths cfg)\<rparr>;
          info = info\<lparr>ci_InlineAuth :=
                   (dc_CredsStore cfg = '''' \<and> dc_CredHelpers cfg = Map.empty)\<rparr>;
          info = (if dc_CredsStore cfg \<noteq> '''' then
                    info\<lparr>ci_Notes :=
                      ''Credentials are managed by credential helper '' @
                      Quote L (dc_CredsStore cfg) @ ''. '' @
                      ''The config file may not contain inline credentials. '' @
                      ''To use with Kind, you may need to extract credentials using '' @
                      [CHR 0x27] @ ''docker-credential-'' @ dc_CredsStore cfg @
                      '' get' and create a standalone config.json, '' @
                      ''or use imagePullSecrets in your Kubernetes manifests.''\<rparr>
                  else info);
          info = (if \<not> ci_InlineAuth info \<and> length (ci_Registries info) = 0 then
                    info\<lparr>ci_Notes := ci_Notes info @
                      '' No inline auth entries found in the config file.''\<rparr>
                  else info)
      in info)"

text \<open>
  The loop of \<open>FindCredentials\<close> over the candidates left: \<open>Some\<close> is its \<open>return info, nil\<close>,
  \<open>None\<close> is the end of the loop. Each of the three \<open>continue\<close> statements goes on with the
  rest of the list.
\<close>

fun FindCredentials_loop :: "golib \<Rightarrow> host \<Rightarrow> candidatePath list \<Rightarrow> CredentialInfo option" where
  "FindCredentials_loop L H [] = None"
| "FindCredentials_loop L H (candidate # rest) =
     (let expanded = expandPath L H (cp_path candidate)
      in if Stat H expanded \<noteq> None then FindCredentials_loop L H rest
         else (case ReadFile H expanded of
                 (data, Some err) \<Rightarrow> FindCredentials_loop L H rest
               | (data, None) \<Rightarrow>
                   (case Unmarshal_dockerConfig L data of
                      Inl err \<Rightarrow> FindCredentials_loop L H rest
                    | Inr cfg \<Rightarrow> Some (credentialInfo L candidate expanded cfg))))"

definition FindCredentials :: "golib \<Rightarrow> host \<Rightarrow> RuntimeInfo \<Rightarrow> error + CredentialInfo" where
  "FindCredentials L H ri =
     (let paths = candidatePaths L H ri
      in case FindCredentials_loop L H paths of
           Some info \<Rightarrow> Inr info
         | None \<Rightarrow> Inl (NoRegistryCredentials (strings_Join (pathStrings L H paths) '', '')))"

section \<open>internal/registry: mirrors\<close>

record RegistryOverride =
  ov_Original :: string
  ov_Mirror :: string




text \<open>
  \<open>generateHostsToml\<close>: the text written to the \<open>strings.Builder\<close>, piece by piece.
\<close>

definition generateHostsToml :: "RegistryOverride \<Rightarrow> string" where
  \<open>generateHostsToml override =
     (let sb = '''';
          sb = (if ov_Original override = ''docker.io''
                then sb @ ''server = "https://registry-1.docker.io"\<newline>\<newline>''
                else sb @ ''server = "https://'' @ ov_Original override @ ''"\<newline>\<newline>'');
          mirrorURL = ov_Mirror override;
          mirrorURL = (if \<not> HasPrefix mirrorURL ''http://'' \<and> \<not> HasPrefix mirrorURL ''https://''
                       then ''http://'' @ mirrorURL else mirrorURL);
          sb = sb @ ''[host."'' @ mirrorURL @ ''"]\<newline>'';
          sb = sb @ ''  capabilities = ["pull", "resolve"]\<newline>'';
          sb = (if HasPrefix mirrorURL ''http://''
                then sb @ ''  skip_verify = true\<newline>'' else sb)
      in sb)\<close>








section \<open>Notions used to state the properties\<close>

text \<open>\<open>strings.HasSuffix\<close>\<close>

definition HasSuffix :: "string \<Rightarrow> string \<Rightarrow> bool" where
  "HasSuffix s suf = (length s \<ge> length suf \<and> drop (length s - length suf) s = suf)"

text \<open>
  The two blocks of a hosts.toml file as \<open>generateHostsToml\<close> writes them: the server line
  for an upstream host, and the mirror block for a mirror URL.
\<close>

definition server_line :: "string \<Rightarrow> string" where
  \<open>server_line upstream = ''server = "https://'' @ upstream @ ''"\<newline>\<newline>''\<close>

definition host_block :: "string \<Rightarrow> string" where
  \<open>host_block url =
     ''[host."'' @ url @ ''"]\<newline>'' @ ''  capabilities = ["pull", "resolve"]\<newline>''\<close>

text \<open>
  A candidate credential file is usable when it exists, can be read, and parses as a
  \<open>dockerConfig\<close>.
\<close>

definition usable :: "golib \<Rightarrow> host \<Rightarrow> candidatePath \<Rightarrow> bool" where
  "usable L H candidate =
     (let expanded = expandPath L H (cp_path candidate)
      in Stat H expanded = None \<and>
         snd (ReadFile H expanded) = None \<and>
         \<not> isl (Unmarshal_dockerConfig L (fst (ReadFile H expanded))))"




subsection \<open>Test doubles for the YAML library and sample inputs\<close>

text \<open>
  A stand-in for \<open>yaml.Marshal\<close> that writes the discriminators and the node roles only,
  and a table-driven stand-in for \<open>yaml.Unmarshal\<close> (in the manner of the repository's
  \<open>mockRunner\<close>): a text that is not in the table does not parse.
\<close>

definition mock_Marshal :: "ClusterConfig \<Rightarrow> error + string" where
  "mock_Marshal cfg =
     Inr (''kind: '' @ cfg_Kind cfg @ [CHR 0x0A] @
          ''apiVersion: '' @ cfg_APIVersion cfg @ [CHR 0x0A] @
          ''nodes:'' @ [CHR 0x0A] @
          concat (map (\<lambda>node. ''- role: '' @ node_Role node @ [CHR 0x0A]) (cfg_Nodes cfg)))"

definition mock_Unmarshal ::
    "(string \<times> ClusterConfig) list \<Rightarrow> string \<Rightarrow> error + ClusterConfig" where
  "mock_Unmarshal table yaml =
     (case map_of table yaml of
        Some cfg \<Rightarrow> Inr cfg
      | None \<Rightarrow> Inl (ExternalError ''yaml: unmarshal errors''))"

text \<open>The scenario of the specification: cluster "demo", 3 control planes, 2 workers.\<close>

definition demo_opts :: ConfigOptions where
  "demo_opts = ConfigOptions_zero
     \<lparr>opts_ClusterName := ''demo'', opts_NumWorkers := 2, opts_NumControlPlanes := 3,
      opts_KubernetesVersion := ''1.31.0'',
      opts_PortMappings := [\<lparr>pm_HostPort = 80, pm_ContainerPort = 80,
         pm_ListenAddress = ''127.0.0.1'', pm_Protocol = ''TCP''\<rparr>]\<rparr>"

definition demo_yaml :: string where
  "demo_yaml =
     ''kind: Cluster'' @ [CHR 0x0A] @
     ''apiVersion: kind.x-k8s.io/v1alpha4'' @ [CHR 0x0A] @
     ''nodes:'' @ [CHR 0x0A] @
     ''- role: control-plane'' @ [CHR 0x0A] @
     ''- role: control-plane'' @ [CHR 0x0A] @
     ''- role: control-plane'' @ [CHR 0x0A] @
     ''- role: worker'' @ [CHR 0x0A] @
     ''- role: worker'' @ [CHR 0x0A]"


definition valid_yaml :: string where
  "valid_yaml =
     ''kind: Cluster'' @ [CHR 0x0A] @
     ''apiVersion: kind.x-k8s.io/v1alpha4'' @ [CHR 0x0A] @
     ''nodes:'' @ [CHR 0x0A] @
     ''- role: control-plane'' @ [CHR 0x0A] @
     ''- role: worker'' @ [CHR 0x0A] @
     ''- role: worker'' @ [CHR 0x0A]"

definition valid_doc :: ClusterConfig where
  "valid_doc = ClusterConfig_zero
     \<lparr>cfg_Kind := ''Cluster'', cfg_APIVersion := ''kind.x-k8s.io/v1alpha4'',
      cfg_Nodes := [NodeConfig_zero\<lparr>node_Role := ''control-plane''\<rparr>,
                    NodeConfig_zero\<lparr>node_Role := ''worker''\<rparr>,
                    NodeConfig_zero\<lparr>node_Role := ''worker''\<rparr>]\<rparr>"

subsection \<open>Test doubles for the standard library, the host and the command runner\<close>

text \<open>
  Stand-ins for the library functions that agree with Go's on the ASCII texts used below:
  lower-casing of the letters A to Z, trimming of blanks, tabs and line ends, quoting of a
  text without quotes or escapes, joining of clean path elements, and table-driven JSON
  decoders (a text that is not in the table does not parse).
\<close>

definition ascii_lower :: "char \<Rightarrow> char" where
  "ascii_lower c =
     (if 65 \<le> (of_char c :: nat) \<and> (of_char c :: nat) \<le> 90
      then char_of ((of_char c :: nat) + 32) else c)"

definition ascii_space :: "char \<Rightarrow> bool" where
  "ascii_space c = (c = CHR '' '' \<or> c = CHR 0x09 \<or> c = CHR 0x0A \<or> c = CHR 0x0D)"

definition ascii_trim :: "string \<Rightarrow> string" where
  "ascii_trim s = rev (dropWhile ascii_space (rev (dropWhile ascii_space s)))"

definition mock_json :: "(string \<times> 'a) list \<Rightarrow> string \<Rightarrow> error + 'a" where
  "mock_json table data =
     (case map_of table data of
        Some v \<Rightarrow> Inr v
      | None \<Rightarrow> Inl (ExternalError ''invalid character''))"

definition mock_lib ::
    "(string \<times> dockerInfo) list \<Rightarrow> (string \<times> podmanInfo) list \<Rightarrow>
     (string \<times> dockerConfig) list \<Rightarrow> golib" where
  "mock_lib dockerInfos podmanInfos dockerConfigs =
     \<lparr>ToLower = map ascii_lower,
      TrimSpace = ascii_trim,
      Quote = (\<lambda>s. [CHR 0x22] @ s @ [CHR 0x22]),
      filepath_Join = (\<lambda>elems. strings_Join (filter (\<lambda>e. e \<noteq> '''') elems) ''/''),
      Unmarshal_dockerInfo = mock_json dockerInfos,
      Unmarshal_podmanInfo = mock_json podmanInfos,
      Unmarshal_dockerConfig = mock_json dockerConfigs\<rparr>"

text \<open>A host with the given operating system, environment, home directory and files.\<close>

definition mock_host ::
    "string \<Rightarrow> (string \<times> string) list \<Rightarrow> string \<Rightarrow> (string \<times> string) list \<Rightarrow> host" where
  "mock_host goos env home files =
     \<lparr>GOOS = goos,
      GOARCH = ''amd64'',
      Getenv = (\<lambda>name. case map_of env name of Some v \<Rightarrow> v | None \<Rightarrow> ''''),
      UserHomeDir = (home, None),
      Stat = (\<lambda>path. case map_of files path of
                 Some data \<Rightarrow> None
               | None \<Rightarrow> Some (ExternalError ''no such file or directory'')),
      ReadFile = (\<lambda>path. case map_of files path of
                 Some data \<Rightarrow> (data, None)
               | None \<Rightarrow> ('''', Some (ExternalError ''no such file or directory'')))\<rparr>"

text \<open>
  The \<open>mockRunner\<close> of the repository's tests: a list of canned calls, matched by the
  command name and a prefix of its arguments, and the names \<open>LookPath\<close> does not find.
  The state of the world is the number of calls made so far.
\<close>

record runCall =
  rc_name :: string
  rc_args :: "string list"
  rc_out :: string
  rc_err :: "error option"

definition matchArgs :: "string list \<Rightarrow> string list \<Rightarrow> bool" where
  "matchArgs want got =
     (if length want = 0 then True
      else if length want > length got then False
      else take (length want) got = want)"

definition mockRunner :: "runCall list \<Rightarrow> string list \<Rightarrow> nat CommandRunner" where
  "mockRunner runs missing =
     \<lparr>Run = (\<lambda>w name args.
        case find (\<lambda>r. rc_name r = name \<and> matchArgs (rc_args r) args) runs of
          Some r \<Rightarrow> ((rc_out r, rc_err r), Suc w)
        | None \<Rightarrow> (('''', Some (ExternalError ''no mock'')), Suc w)),
      LookPath = (\<lambda>w name.
        if name \<in> set missing
        then (('''', Some (ExternalError ''executable file not found in $PATH'')), Suc w)
        else ((''/usr/bin/'' @ name, None), Suc w))\<rparr>"

definition freebsd :: OSInfo where
  "freebsd = \<lparr>os_OS = ''freebsd'', os_Arch = ''amd64'', os_Platform = ''freebsd'',
              os_PlatformNote = ''Unsupported platform: freebsd''\<rparr>"

text \<open>A runner on which both runtimes are installed and both info calls fail.\<close>

definition failing_detector :: "nat Detector" where
  "failing_detector =
     \<lparr>det_runner = mockRunner
        [\<lparr>rc_name = ''docker'', rc_args = [''info''], rc_out = ''Cannot connect to the Docker daemon'',
          rc_err = Some (ExternalError ''exit status 1'')\<rparr>,
         \<lparr>rc_name = ''podman'', rc_args = [''info''], rc_out = '''',
          rc_err = Some (ExternalError ''exit status 125'')\<rparr>] []\<rparr>"

subsection \<open>Sample hosts and clusters for the registry functions\<close>

text \<open>
  A host where \<open>DOCKER_CONFIG\<close> names a directory whose config.json is not JSON, and where
  the config.json of the home directory is a valid file with one inline credential.
\<close>

definition good_json :: string where
  \<open>good_json = ''{"auths":{"ghcr.io":{"auth":"dXNlcjpwYXNz"}}}''\<close>

definition good_config :: dockerConfig where
  "good_config =
     \<lparr>dc_Auths = [(''ghcr.io'', ''dXNlcjpwYXNz'')], dc_CredsStore = '''',
      dc_CredHelpers = Map.empty\<rparr>"

definition cred_lib :: golib where
  "cred_lib = mock_lib [] [] [(good_json, good_config)]"

definition cred_host :: host where
  "cred_host = mock_host ''linux'' [(''DOCKER_CONFIG'', ''/cfg'')] ''/home/u''
     [(''/cfg/config.json'', ''not json''), (''/home/u/.docker/config.json'', good_json)]"

definition docker_runtime :: RuntimeInfo where
  "docker_runtime = RuntimeInfo_zero\<lparr>ri_Runtime := RuntimeDocker\<rparr>"




section \<open>Properties of the cluster configuration\<close>

lemma control_plane_node_Role: "node_Role (control_plane_node opts i) = ''control-plane''"
  by (simp add: control_plane_node_def Let_def)

lemma worker_node_Role: "node_Role (worker_node opts) = ''worker''"
  by (simp add: worker_node_def Let_def)

lemma control_plane_node_ports:
  "node_ExtraPortMappings (control_plane_node opts i) = (if i = 0 then opts_PortMappings opts else [])"
  by (simp add: control_plane_node_def NodeConfig_zero_def Let_def)

lemma worker_node_ports: "node_ExtraPortMappings (worker_node opts) = []"
  by (simp add: worker_node_def NodeConfig_zero_def Let_def)

lemma control_plane_loop_eq:
  "control_plane_loop opts i nodes =
     nodes @ map (control_plane_node opts) [i..opts_NumControlPlanes opts - 1]"
proof (induction opts i nodes rule: control_plane_loop.induct)
  case (1 opts i nodes)
  show ?case
  proof (cases "i < opts_NumControlPlanes opts")
    case True
    then have "[i..opts_NumControlPlanes opts - 1] = i # [i + 1..opts_NumControlPlanes opts - 1]"
      by (simp add: upto_rec1)
    with True "1.IH" [OF True] show ?thesis
      by (subst control_plane_loop.simps) (simp del: control_plane_loop.simps)
  next
    case False
    then show ?thesis by simp
  qed
qed

lemma worker_loop_eq:
  "worker_loop opts i nodes = nodes @ replicate (nat (opts_NumWorkers opts - i)) (worker_node opts)"
proof (induction opts i nodes rule: worker_loop.induct)
  case (1 opts i nodes)
  show ?case
  proof (cases "i < opts_NumWorkers opts")
    case True
    then have "nat (opts_NumWorkers opts - i) = Suc (nat (opts_NumWorkers opts - (i + 1)))"
      by simp
    with True "1.IH" [OF True] show ?thesis
      by (subst worker_loop.simps) (simp del: worker_loop.simps)
  next
    case False
    then show ?thesis by simp
  qed
qed

lemma GenerateConfig_doc_Nodes:
  "cfg_Nodes (GenerateConfig_doc opts) =
     map (control_plane_node (opts\<lparr>opts_NumControlPlanes := normalized_control_planes opts\<rparr>))
         [0..normalized_control_planes opts - 1] @
     replicate (nat (opts_NumWorkers opts))
       (worker_node (opts\<lparr>opts_NumControlPlanes := normalized_control_planes opts\<rparr>))"
  by (simp add: GenerateConfig_doc_def Let_def control_plane_loop_eq worker_loop_eq
      ClusterConfig_zero_def normalized_control_planes_def del: control_plane_loop.simps worker_loop.simps)



lemma map_const_upto:
  assumes "\<And>k. f k = c"
  shows "map f [i..j] = replicate (nat (j - i + 1)) c"
proof -
  have "f = (\<lambda>k. c)" using assms by (intro ext)
  then show ?thesis by (simp add: map_replicate_const)
qed

lemma GenerateConfig_doc_roles:
  "map node_Role (cfg_Nodes (GenerateConfig_doc opts)) =
     replicate (nat (normalized_control_planes opts)) ''control-plane'' @
     replicate (nat (opts_NumWorkers opts)) ''worker''"
proof -
  have "map (\<lambda>k. node_Role (control_plane_node (opts\<lparr>opts_NumControlPlanes := normalized_control_planes opts\<rparr>) k))
          [0..normalized_control_planes opts - 1] =
        replicate (nat (normalized_control_planes opts)) ''control-plane''"
    using map_const_upto [where f = "\<lambda>k. node_Role (control_plane_node (opts\<lparr>opts_NumControlPlanes := normalized_control_planes opts\<rparr>) k)" and c = "''control-plane''" and i = 0 and j = "normalized_control_planes opts - 1"]
    by (simp add: control_plane_node_Role)
  then show ?thesis
    by (simp add: GenerateConfig_doc_Nodes worker_node_Role comp_def)
qed

text \<open>
  Claim C1. For options with a non-empty cluster name, a positive control-plane count c and a
  non-negative worker count w, \<open>GenerateConfig\<close> passes its name check and returns the text
  that the YAML library gives for its document, and the node list of that document has
  exactly c nodes of role "control-plane" followed by exactly w nodes of role "worker".
\<close>

theorem GenerateConfig_nodes_in_order:
  assumes "opts_ClusterName opts \<noteq> ''''"
    and "0 < opts_NumControlPlanes opts"
    and "0 \<le> opts_NumWorkers opts"
    and "Marshal (GenerateConfig_doc opts) = Inr text"
  shows "GenerateConfig Marshal opts = Inr text \<and>
         map node_Role (cfg_Nodes (GenerateConfig_doc opts)) =
           replicate (nat (opts_NumControlPlanes opts)) ''control-plane'' @
           replicate (nat (opts_NumWorkers opts)) ''worker''"
  using assms
  by (simp add: GenerateConfig_def GenerateConfig_doc_roles normalized_control_planes_def)

lemma ValidateConfig_nodes_Inl:
  "isl (ValidateConfig_nodes nodes h) \<longleftrightarrow>
     (\<exists>node \<in> set nodes. node_Role node \<noteq> ''control-plane'' \<and> node_Role node \<noteq> ''worker'')"
  by (induction nodes arbitrary: h) (auto simp: Let_def)

lemma ValidateConfig_nodes_Inr:
  "ValidateConfig_nodes nodes h = Inr b \<Longrightarrow>
     b = (h \<or> (\<exists>node \<in> set nodes. node_Role node = ''control-plane''))"
  by (induction nodes arbitrary: h) (auto simp: Let_def split: if_splits)

text \<open>
  Claim C3. \<open>ValidateConfig\<close> returns an error if and only if the text does not parse, or
  the kind is not "Cluster", or the API version is not "kind.x-k8s.io/v1alpha4", or some
  node has a role that is neither "control-plane" nor "worker", or there are nodes and none
  of them is a control plane.
\<close>

theorem ValidateConfig_fails_iff:
  "ValidateConfig Unmarshal text \<noteq> None \<longleftrightarrow>
     (case Unmarshal text of
        Inl err \<Rightarrow> True
      | Inr cfg \<Rightarrow>
          cfg_Kind cfg \<noteq> ''Cluster'' \<or>
          cfg_APIVersion cfg \<noteq> ''kind.x-k8s.io/v1alpha4'' \<or>
          (\<exists>node \<in> set (cfg_Nodes cfg).
              node_Role node \<noteq> ''control-plane'' \<and> node_Role node \<noteq> ''worker'') \<or>
          (cfg_Nodes cfg \<noteq> [] \<and>
           (\<forall>node \<in> set (cfg_Nodes cfg). node_Role node \<noteq> ''control-plane'')))"
proof (cases "Unmarshal text")
  case (Inl err)
  then show ?thesis by (simp add: ValidateConfig_def)
next
  case (Inr cfg)
  show ?thesis
  proof (cases "ValidateConfig_nodes (cfg_Nodes cfg) False")
    case (Inl e)
    then have "isl (ValidateConfig_nodes (cfg_Nodes cfg) False)" by simp
    then have "\<exists>node \<in> set (cfg_Nodes cfg). node_Role node \<noteq> ''control-plane'' \<and> node_Role node \<noteq> ''worker''"
      unfolding ValidateConfig_nodes_Inl .
    with Inl Inr show ?thesis by (simp add: ValidateConfig_def)
  next
    case (Inr b)
    have b: "b = (\<exists>node \<in> set (cfg_Nodes cfg). node_Role node = ''control-plane'')"
      using ValidateConfig_nodes_Inr [OF Inr] by simp
    have "\<not> isl (ValidateConfig_nodes (cfg_Nodes cfg) False)" using Inr by simp
    then have v: "\<not> (\<exists>node \<in> set (cfg_Nodes cfg). node_Role node \<noteq> ''control-plane'' \<and> node_Role node \<noteq> ''worker'')"
      unfolding ValidateConfig_nodes_Inl .
    from Inr \<open>Unmarshal text = Inr cfg\<close> b v show ?thesis
      by (auto simp: ValidateConfig_def)
  qed
qed




text \<open>
  Claim C9. In the document that \<open>GenerateConfig\<close> serialises, node 0 is a control-plane
  node that carries the port mappings of the options, and no other node, control plane or
  worker, has any port mapping.
\<close>

theorem port_mappings_only_on_first_control_plane:
  assumes "GenerateConfig Marshal opts = Inr text"
  shows "Marshal (GenerateConfig_doc opts) = Inr text \<and>
         cfg_Nodes (GenerateConfig_doc opts) \<noteq> [] \<and>
         node_Role (cfg_Nodes (GenerateConfig_doc opts) ! 0) = ''control-plane'' \<and>
         (\<forall>i < length (cfg_Nodes (GenerateConfig_doc opts)).
            node_ExtraPortMappings (cfg_Nodes (GenerateConfig_doc opts) ! i) =
              (if i = 0 then opts_PortMappings opts else []))"
proof -
  let ?n = "normalized_control_planes opts"
  let ?opts = "opts\<lparr>opts_NumControlPlanes := ?n\<rparr>"
  let ?cps = "map (control_plane_node ?opts) [0..?n - 1]"
  let ?ws = "replicate (nat (opts_NumWorkers opts)) (worker_node ?opts)"
  have nodes: "cfg_Nodes (GenerateConfig_doc opts) = ?cps @ ?ws"
    by (rule GenerateConfig_doc_Nodes)
  have n: "0 < ?n" by (simp add: normalized_control_planes_def)
  have len: "length ?cps = nat ?n" by simp
  have cp: "?cps ! i = control_plane_node ?opts (int i)" if "i < nat ?n" for i
    using that by (simp add: nth_upto)
  have m: "Marshal (GenerateConfig_doc opts) = Inr text"
    using assms by (auto simp: GenerateConfig_def split: if_splits sum.splits)
  have ne: "cfg_Nodes (GenerateConfig_doc opts) \<noteq> []"
    using n len unfolding nodes by (metis append_is_Nil_conv length_0_conv nat_0_iff not_le)
  have at: "cfg_Nodes (GenerateConfig_doc opts) ! i =
              (if i < nat ?n then control_plane_node ?opts (int i) else worker_node ?opts)"
    if "i < length (cfg_Nodes (GenerateConfig_doc opts))" for i
  proof (cases "i < nat ?n")
    case True
    then have "(?cps @ ?ws) ! i = ?cps ! i"
      by (simp only: nth_append len if_True)
    with True cp [OF True] show ?thesis by (simp only: nodes if_True)
  next
    case False
    have "i - nat ?n < length ?ws"
      using that False unfolding nodes by (simp del: map_map)
    then have "?ws ! (i - nat ?n) = worker_node ?opts" by simp
    moreover have "(?cps @ ?ws) ! i = ?ws ! (i - nat ?n)"
      using False by (simp only: nth_append len if_False)
    ultimately show ?thesis using False by (simp only: nodes if_False)
  qed
  have first: "cfg_Nodes (GenerateConfig_doc opts) ! 0 = control_plane_node ?opts 0"
    using at [of 0] ne n by simp
  have ports: "node_ExtraPortMappings (cfg_Nodes (GenerateConfig_doc opts) ! i) =
              (if i = 0 then opts_PortMappings opts else [])"
    if "i < length (cfg_Nodes (GenerateConfig_doc opts))" for i
    using at [OF that] n by (auto simp: control_plane_node_ports worker_node_ports)
  show ?thesis
    using m ne first ports by (simp add: control_plane_node_Role)
qed

lemmas config_eval = ConfigOptions_zero_def GenerateConfig_doc_def Let_def
  ClusterConfig_zero_def control_plane_node_def worker_node_def NodeConfig_zero_def
  kindNodeImage_def HasPrefix_def NetworkConfig_zero_def mock_Marshal_def

theorem GenerateConfig_nodes_in_order_witness:
  "opts_ClusterName demo_opts \<noteq> '''' \<and> 0 < opts_NumControlPlanes demo_opts \<and>
   0 \<le> opts_NumWorkers demo_opts \<and>
   mock_Marshal (GenerateConfig_doc demo_opts) = Inr demo_yaml \<and>
   GenerateConfig mock_Marshal demo_opts = Inr demo_yaml \<and>
   map node_Role (cfg_Nodes (GenerateConfig_doc demo_opts)) =
     [''control-plane'', ''control-plane'', ''control-plane'', ''worker'', ''worker'']"
proof -
  have h1: "opts_ClusterName demo_opts \<noteq> ''''" by (simp add: demo_opts_def config_eval)
  have h2: "0 < opts_NumControlPlanes demo_opts" by (simp add: demo_opts_def config_eval)
  have h3: "0 \<le> opts_NumWorkers demo_opts" by (simp add: demo_opts_def config_eval)
  have h4: "mock_Marshal (GenerateConfig_doc demo_opts) = Inr demo_yaml"
    by (simp add: demo_opts_def config_eval demo_yaml_def)
  show ?thesis
    using GenerateConfig_nodes_in_order
      [where opts = demo_opts and Marshal = mock_Marshal, OF h1 h2 h3 h4] h1 h2 h3 h4
    by (simp add: demo_opts_def ConfigOptions_zero_def numeral_eq_Suc)
qed


theorem ValidateConfig_fails_iff_witness:
  "ValidateConfig (mock_Unmarshal [(valid_yaml, valid_doc)]) valid_yaml = None \<and>
   ValidateConfig (mock_Unmarshal [(valid_yaml, valid_doc)]) ''not: [valid: yaml'' \<noteq> None \<and>
   ValidateConfig (mock_Unmarshal [(''x'', valid_doc\<lparr>cfg_Kind := ''Pod''\<rparr>)]) ''x'' \<noteq> None \<and>
   ValidateConfig (mock_Unmarshal [(''x'', valid_doc\<lparr>cfg_APIVersion := ''v1''\<rparr>)]) ''x'' \<noteq> None \<and>
   ValidateConfig (mock_Unmarshal [(''x'', valid_doc\<lparr>cfg_Nodes :=
       [NodeConfig_zero\<lparr>node_Role := ''bogus''\<rparr>]\<rparr>)]) ''x'' \<noteq> None \<and>
   ValidateConfig (mock_Unmarshal [(''x'', valid_doc\<lparr>cfg_Nodes :=
       [NodeConfig_zero\<lparr>node_Role := ''worker''\<rparr>]\<rparr>)]) ''x'' \<noteq> None \<and>
   ValidateConfig (mock_Unmarshal [(''x'', valid_doc\<lparr>cfg_Nodes := []\<rparr>)]) ''x'' = None"
  using ValidateConfig_fails_iff [of "mock_Unmarshal [(valid_yaml, valid_doc)]" valid_yaml]
    ValidateConfig_fails_iff [of "mock_Unmarshal [(valid_yaml, valid_doc)]" "''not: [valid: yaml''"]
    ValidateConfig_fails_iff [of "mock_Unmarshal [(''x'', valid_doc\<lparr>cfg_Kind := ''Pod''\<rparr>)]" "''x''"]
    ValidateConfig_fails_iff [of "mock_Unmarshal [(''x'', valid_doc\<lparr>cfg_APIVersion := ''v1''\<rparr>)]" "''x''"]
    ValidateConfig_fails_iff [of "mock_Unmarshal [(''x'', valid_doc\<lparr>cfg_Nodes :=
       [NodeConfig_zero\<lparr>node_Role := ''bogus''\<rparr>]\<rparr>)]" "''x''"]
    ValidateConfig_fails_iff [of "mock_Unmarshal [(''x'', valid_doc\<lparr>cfg_Nodes :=
       [NodeConfig_zero\<lparr>node_Role := ''worker''\<rparr>]\<rparr>)]" "''x''"]
    ValidateConfig_fails_iff [of "mock_Unmarshal [(''x'', valid_doc\<lparr>cfg_Nodes := []\<rparr>)]" "''x''"]
  by (simp add: mock_Unmarshal_def valid_doc_def valid_yaml_def ClusterConfig_zero_def
      NodeConfig_zero_def)

theorem port_mappings_only_on_first_control_plane_witness:
  "GenerateConfig mock_Marshal demo_opts = Inr demo_yaml \<and>
   length (cfg_Nodes (GenerateConfig_doc demo_opts)) = 5 \<and>
   opts_PortMappings demo_opts \<noteq> [] \<and>
   node_ExtraPortMappings (cfg_Nodes (GenerateConfig_doc demo_opts) ! 0) =
     opts_PortMappings demo_opts \<and>
   node_ExtraPortMappings (cfg_Nodes (GenerateConfig_doc demo_opts) ! 1) = [] \<and>
   node_ExtraPortMappings (cfg_Nodes (GenerateConfig_doc demo_opts) ! 2) = [] \<and>
   node_ExtraPortMappings (cfg_Nodes (GenerateConfig_doc demo_opts) ! 3) = [] \<and>
   node_ExtraPortMappings (cfg_Nodes (GenerateConfig_doc demo_opts) ! 4) = []"
proof -
  have g: "GenerateConfig mock_Marshal demo_opts = Inr demo_yaml"
    by (simp add: GenerateConfig_def demo_opts_def config_eval demo_yaml_def)
  have len: "length (cfg_Nodes (GenerateConfig_doc demo_opts)) = 5"
    by (simp add: demo_opts_def config_eval)
  have pm: "opts_PortMappings demo_opts \<noteq> []"
    by (simp add: demo_opts_def ConfigOptions_zero_def)
  have "\<forall>i < 5. node_ExtraPortMappings (cfg_Nodes (GenerateConfig_doc demo_opts) ! i) =
              (if i = 0 then opts_PortMappings demo_opts else [])"
    using port_mappings_only_on_first_control_plane
      [where opts = demo_opts and Marshal = mock_Marshal, OF g] len by simp
  then show ?thesis using g len pm by simp
qed

section \<open>Properties of the runtime detection and the network advice\<close>

lemmas runtime_consts = RuntimeDocker_def RuntimePodman_def RuntimeUnknown_def
  BackendDockerDesktop_def BackendColima_def BackendWSL_def BackendPodmanMachine_def
  BackendNative_def BackendRancherDesktop_def BackendLima_def BackendUnknown_def

text \<open>
  Claim C10. For every \<open>RuntimeInfo\<close>, the advice of \<open>DetectNetworkConfig\<close> supports port
  mapping and recommends the port range "30000-32767".
\<close>

theorem DetectNetworkConfig_fixed_fields:
  "adv_SupportsPortMapping (DetectNetworkConfig ri) \<and>
   adv_RecommendedPortRange (DetectNetworkConfig ri) = ''30000-32767''"
  by (simp add: DetectNetworkConfig_def Let_def)

theorem DetectNetworkConfig_fixed_fields_witness:
  "adv_SupportsPortMapping (DetectNetworkConfig
      (RuntimeInfo_zero\<lparr>ri_Backend := ''no such backend'', ri_OS := freebsd\<rparr>)) \<and>
   adv_RecommendedPortRange (DetectNetworkConfig
      (RuntimeInfo_zero\<lparr>ri_Backend := ''no such backend'', ri_OS := freebsd\<rparr>)) = ''30000-32767''"
  using DetectNetworkConfig_fixed_fields
    [of "RuntimeInfo_zero\<lparr>ri_Backend := ''no such backend'', ri_OS := freebsd\<rparr>"]
  by simp

text \<open>
  Claim C8, as amended. The Podman backend is "podman-machine" on a darwin or windows host;
  on a linux host it is "wsl" when the kernel-signature check succeeds and "native"
  otherwise; on a host with any other operating system it is "unknown".
\<close>

theorem detectPodmanBackend_classification:
  "(os_OS osInfo = ''darwin'' \<or> os_OS osInfo = ''windows'' \<longrightarrow>
      detectPodmanBackend L H osInfo = BackendPodmanMachine) \<and>
   (os_OS osInfo = ''linux'' \<longrightarrow>
      detectPodmanBackend L H osInfo = (if isWSL L H then BackendWSL else BackendNative)) \<and>
   (os_OS osInfo \<noteq> ''darwin'' \<and> os_OS osInfo \<noteq> ''windows'' \<and> os_OS osInfo \<noteq> ''linux'' \<longrightarrow>
      detectPodmanBackend L H osInfo = BackendUnknown)"
  by (simp add: detectPodmanBackend_def)

text \<open>
  On a FreeBSD host, which is not a Linux host, the Podman backend is "unknown" and not
  "podman-machine".
\<close>

theorem detectPodmanBackend_non_linux_counterexample:
  "os_OS freebsd \<noteq> ''linux'' \<and>
   detectPodmanBackend (mock_lib [] [] []) (mock_host ''freebsd'' [] ''/root'' []) freebsd
     \<noteq> BackendPodmanMachine \<and>
   detectPodmanBackend (mock_lib [] [] []) (mock_host ''freebsd'' [] ''/root'' []) freebsd
     = BackendUnknown"
  by (simp add: detectPodmanBackend_def freebsd_def runtime_consts)

theorem detectPodmanBackend_classification_witness:
  "detectPodmanBackend (mock_lib [] [] [])
     (mock_host ''linux'' [] ''/root''
        [(''/proc/version'', ''Linux version 5.15.90.1-microsoft-standard-WSL2'')])
     (OSInfo_zero\<lparr>os_OS := ''linux''\<rparr>) = BackendWSL \<and>
   detectPodmanBackend (mock_lib [] [] [])
     (mock_host ''linux'' [] ''/root'' [(''/proc/version'', ''Linux version 6.1.0-18-amd64'')])
     (OSInfo_zero\<lparr>os_OS := ''linux''\<rparr>) = BackendNative \<and>
   detectPodmanBackend (mock_lib [] [] []) (mock_host ''darwin'' [] ''/Users/u'' [])
     (OSInfo_zero\<lparr>os_OS := ''darwin''\<rparr>) = BackendPodmanMachine \<and>
   detectPodmanBackend (mock_lib [] [] []) (mock_host ''windows'' [] ''C:'' [])
     (OSInfo_zero\<lparr>os_OS := ''windows''\<rparr>) = BackendPodmanMachine \<and>
   detectPodmanBackend (mock_lib [] [] []) (mock_host ''freebsd'' [] ''/root'' []) freebsd
     = BackendUnknown"
proof -
  have wsl: "isWSL (mock_lib [] [] [])
     (mock_host ''linux'' [] ''/root''
        [(''/proc/version'', ''Linux version 5.15.90.1-microsoft-standard-WSL2'')])"
    by (simp add: isWSL_def mock_lib_def mock_host_def ascii_lower_def HasPrefix_def)
  have native: "\<not> isWSL (mock_lib [] [] [])
     (mock_host ''linux'' [] ''/root'' [(''/proc/version'', ''Linux version 6.1.0-18-amd64'')])"
    by (simp add: isWSL_def mock_lib_def mock_host_def ascii_lower_def HasPrefix_def)
  show ?thesis
    using wsl native
      detectPodmanBackend_classification [of "OSInfo_zero\<lparr>os_OS := ''linux''\<rparr>"
        "mock_lib [] [] []" "mock_host ''linux'' [] ''/root''
          [(''/proc/version'', ''Linux version 5.15.90.1-microsoft-standard-WSL2'')]"]
      detectPodmanBackend_classification [of "OSInfo_zero\<lparr>os_OS := ''linux''\<rparr>"
        "mock_lib [] [] []" "mock_host ''linux'' [] ''/root''
          [(''/proc/version'', ''Linux version 6.1.0-18-amd64'')]"]
      detectPodmanBackend_classification [of "OSInfo_zero\<lparr>os_OS := ''darwin''\<rparr>"
        "mock_lib [] [] []" "mock_host ''darwin'' [] ''/Users/u'' []"]
      detectPodmanBackend_classification [of "OSInfo_zero\<lparr>os_OS := ''windows''\<rparr>"
        "mock_lib [] [] []" "mock_host ''windows'' [] ''C:'' []"]
      detectPodmanBackend_classification [of freebsd
        "mock_lib [] [] []" "mock_host ''freebsd'' [] ''/root'' []"]
    by (simp add: OSInfo_zero_def freebsd_def)
qed

text \<open>
  Claim C7. \<open>Detect\<close> looks for docker first and returns what \<open>detectDocker\<close> found when
  that succeeds; when docker is absent or \<open>detectDocker\<close> fails (as it does when the info
  call fails) it goes on to podman in the same way; when neither gives a result it
  returns, as an ordinary value, a \<open>RuntimeInfo\<close> that is not available, has runtime and
  backend "unknown" and carries the fixed diagnostic message.
\<close>

theorem Detect_probe_order:
  assumes "LookPath (det_runner d) w ''docker'' = ((p1, e1), w1)"
    and "detectDocker L H d w1 (DetectOS H) = ((ri1, f1), w2)"
    and "wd = (if e1 = None then w2 else w1)"
    and "LookPath (det_runner d) wd ''podman'' = ((p2, e2), w3)"
    and "detectPodman L H d w3 (DetectOS H) = ((ri2, f2), w4)"
  shows "Detect L H d w =
           (if e1 = None \<and> f1 = None then (ri1, w2)
            else if e2 = None \<and> f2 = None then (ri2, w4)
            else (RuntimeInfo_zero
                    \<lparr>ri_Runtime := RuntimeUnknown, ri_Backend := BackendUnknown,
                     ri_Available := False, ri_OS := DetectOS H,
                     ri_Error := ''no container runtime detected; install Docker or Podman''\<rparr>,
                  if e2 = None then w4 else w3)) \<and>
         (\<forall>out err w'. Run (det_runner d) w1 ''docker'' [''info'', ''--format'', ''{{json .}}'']
                          = ((out, Some err), w') \<longrightarrow> f1 = Some (DockerInfoFailed err))"
proof -
  have info: "f1 = Some (DockerInfoFailed err)"
    if "Run (det_runner d) w1 ''docker'' [''info'', ''--format'', ''{{json .}}'']
          = ((out, Some err), w')" for out err w'
    using assms(2) that by (simp add: detectDocker_def Let_def)
  have main: "Detect L H d w =
           (if e1 = None \<and> f1 = None then (ri1, w2)
            else if e2 = None \<and> f2 = None then (ri2, w4)
            else (RuntimeInfo_zero
                    \<lparr>ri_Runtime := RuntimeUnknown, ri_Backend := BackendUnknown,
                     ri_Available := False, ri_OS := DetectOS H,
                     ri_Error := ''no container runtime detected; install Docker or Podman''\<rparr>,
                  if e2 = None then w4 else w3))"
  proof (cases e1)
    case None
    show ?thesis
    proof (cases f1)
      case None
      with \<open>e1 = None\<close> assms(1,2) show ?thesis by (simp add: Detect_def Let_def)
    next
      case (Some err)
      with \<open>e1 = None\<close> assms show ?thesis
        by (cases e2; cases f2) (simp_all add: Detect_def Let_def)
    qed
  next
    case (Some err)
    with assms show ?thesis
      by (cases e2; cases f2) (simp_all add: Detect_def Let_def)
  qed
  from main info show ?thesis by blast
qed

theorem Detect_probe_order_witness:
  "Detect (mock_lib [] [] []) (mock_host ''linux'' [] ''/root'' []) failing_detector 0 =
     (RuntimeInfo_zero
        \<lparr>ri_Runtime := ''unknown'', ri_Backend := ''unknown'', ri_Available := False,
         ri_OS := DetectOS (mock_host ''linux'' [] ''/root'' []),
         ri_Error := ''no container runtime detected; install Docker or Podman''\<rparr>, 4)"
proof -
  let ?L = "mock_lib [] [] []"
  let ?H = "mock_host ''linux'' [] ''/root'' []"
  have h1: "LookPath (det_runner failing_detector) 0 ''docker'' = ((''/usr/bin/docker'', None), 1)"
    by (simp add: failing_detector_def mockRunner_def)
  have h2: "detectDocker ?L ?H failing_detector 1 (DetectOS ?H) =
      ((RuntimeInfo_zero\<lparr>ri_Runtime := RuntimeDocker, ri_Available := True, ri_OS := DetectOS ?H\<rparr>,
        Some (DockerInfoFailed (ExternalError ''exit status 1''))), 2)"
    by (simp add: detectDocker_def failing_detector_def mockRunner_def matchArgs_def Let_def)
  have h3: "(2::nat) = (if (None :: error option) = None then 2 else 1)" by simp
  have h4: "LookPath (det_runner failing_detector) 2 ''podman'' = ((''/usr/bin/podman'', None), 3)"
    by (simp add: failing_detector_def mockRunner_def)
  have h5: "detectPodman ?L ?H failing_detector 3 (DetectOS ?H) =
      ((RuntimeInfo_zero\<lparr>ri_Runtime := RuntimePodman, ri_Available := True, ri_OS := DetectOS ?H\<rparr>,
        Some (PodmanInfoFailed (ExternalError ''exit status 125''))), 4)"
    by (simp add: detectPodman_def failing_detector_def mockRunner_def matchArgs_def Let_def)
  show ?thesis
    using Detect_probe_order [OF h1 h2 h3 h4 h5] by (simp add: runtime_consts)
qed

section \<open>Properties of the registry mirror configuration\<close>

lemma HasPrefix_append: "HasPrefix (pre @ s) pre"
  by (simp add: HasPrefix_def)

lemma HasSuffix_append: "HasSuffix (s @ suf) suf"
  by (simp add: HasSuffix_def)

lemma HasSuffix_append_long:
  "length suf \<le> length b \<Longrightarrow> HasSuffix (a @ b) suf \<longleftrightarrow> HasSuffix b suf"
  by (simp add: HasSuffix_def)

lemma https_not_http: "HasPrefix s ''https://'' \<Longrightarrow> \<not> HasPrefix s ''http://''"
  by (auto simp: HasPrefix_def take_Suc_conv_app_nth numeral_eq_Suc
      elim!: list.set_cases split: list.splits)

text \<open>
  Claim C6. The text of \<open>generateHostsToml\<close> is the server line, the mirror block, and then
  the line "skip_verify = true" exactly when the mirror does not start with "https://": it
  ends with that line if and only if the mirror is plain http, where a mirror without a
  scheme gets the prefix "http://". The server line names "registry-1.docker.io" when the
  original registry is "docker.io", and the original registry otherwise.
\<close>

theorem generateHostsToml_skip_verify:
  "generateHostsToml override =
     server_line (if ov_Original override = ''docker.io'' then ''registry-1.docker.io''
                  else ov_Original override) @
     host_block (if HasPrefix (ov_Mirror override) ''http://'' \<or>
                    HasPrefix (ov_Mirror override) ''https://''
                 then ov_Mirror override else ''http://'' @ ov_Mirror override) @
     (if HasPrefix (ov_Mirror override) ''https://'' then ''''
      else ''  skip_verify = true\<newline>'') \<and>
   (HasSuffix (generateHostsToml override) ''  skip_verify = true\<newline>'' \<longleftrightarrow>
      \<not> HasPrefix (ov_Mirror override) ''https://'')"
proof -
  let ?server = "server_line (if ov_Original override = ''docker.io'' then ''registry-1.docker.io''
                  else ov_Original override)"
  let ?url = "if HasPrefix (ov_Mirror override) ''http://'' \<or>
                    HasPrefix (ov_Mirror override) ''https://''
                 then ov_Mirror override else ''http://'' @ ov_Mirror override"
  have plain: "HasPrefix ?url ''http://'' \<longleftrightarrow> \<not> HasPrefix (ov_Mirror override) ''https://''"
    using https_not_http [of "ov_Mirror override"] HasPrefix_append [of "''http://''"]
    by auto
  have eq: "generateHostsToml override = ?server @ host_block ?url @
     (if HasPrefix (ov_Mirror override) ''https://'' then ''''
      else ''  skip_verify = true\<newline>'')"
  proof (cases "HasPrefix (ov_Mirror override) ''https://''")
    case True
    with https_not_http [OF True] show ?thesis
      by (simp add: generateHostsToml_def Let_def server_line_def host_block_def)
  next
    case False
    show ?thesis
    proof (cases "HasPrefix (ov_Mirror override) ''http://''")
      case True
      with False show ?thesis
        by (simp add: generateHostsToml_def Let_def server_line_def host_block_def)
    next
      case nohttp: False
      with False HasPrefix_append [of "''http://''" "ov_Mirror override"] show ?thesis
        by (simp add: generateHostsToml_def Let_def server_line_def host_block_def)
    qed
  qed
  have suf: "HasSuffix (generateHostsToml override) ''  skip_verify = true\<newline>'' \<longleftrightarrow>
      \<not> HasPrefix (ov_Mirror override) ''https://''"
  proof (cases "HasPrefix (ov_Mirror override) ''https://''")
    case True
    have "\<not> HasSuffix (?server @ host_block ?url) ''  skip_verify = true\<newline>''"
      unfolding host_block_def append_assoc [symmetric]
      by (subst HasSuffix_append_long) (simp_all add: HasSuffix_def)
    with True eq show ?thesis by simp
  next
    case False
    have "HasSuffix ((?server @ host_block ?url) @ ''  skip_verify = true\<newline>'')
            ''  skip_verify = true\<newline>''"
      by (rule HasSuffix_append)
    with False eq show ?thesis by simp
  qed
  from eq suf show ?thesis by blast
qed

theorem generateHostsToml_skip_verify_witness:
  "generateHostsToml \<lparr>ov_Original = ''docker.io'', ov_Mirror = ''http://local:5000''\<rparr> =
     server_line ''registry-1.docker.io'' @ host_block ''http://local:5000'' @
     ''  skip_verify = true\<newline>'' \<and>
   generateHostsToml \<lparr>ov_Original = ''docker.io'', ov_Mirror = ''https://local:5000''\<rparr> =
     server_line ''registry-1.docker.io'' @ host_block ''https://local:5000'' \<and>
   \<not> HasSuffix (generateHostsToml \<lparr>ov_Original = ''docker.io'', ov_Mirror = ''https://local:5000''\<rparr>)
     ''  skip_verify = true\<newline>'' \<and>
   generateHostsToml \<lparr>ov_Original = ''quay.io'', ov_Mirror = ''proxy:5000''\<rparr> =
     server_line ''quay.io'' @ host_block ''http://proxy:5000'' @ ''  skip_verify = true\<newline>''"
proof -
  have plain: "generateHostsToml \<lparr>ov_Original = ''docker.io'', ov_Mirror = ''http://local:5000''\<rparr> =
     server_line ''registry-1.docker.io'' @ host_block ''http://local:5000'' @
     ''  skip_verify = true\<newline>''"
    using generateHostsToml_skip_verify
      [of "\<lparr>ov_Original = ''docker.io'', ov_Mirror = ''http://local:5000''\<rparr>"]
    by (simp add: HasPrefix_def)
  note https = generateHostsToml_skip_verify
      [of "\<lparr>ov_Original = ''docker.io'', ov_Mirror = ''https://local:5000''\<rparr>"]
  have secure_text: "generateHostsToml \<lparr>ov_Original = ''docker.io'', ov_Mirror = ''https://local:5000''\<rparr> =
     server_line ''registry-1.docker.io'' @ host_block ''https://local:5000''"
    using https [THEN conjunct1] by (simp add: HasPrefix_def)
  have secure_line: "\<not> HasSuffix (generateHostsToml \<lparr>ov_Original = ''docker.io'', ov_Mirror = ''https://local:5000''\<rparr>)
       ''  skip_verify = true\<newline>''"
    using https [THEN conjunct2] by (simp add: HasPrefix_def)
  have bare: "generateHostsToml \<lparr>ov_Original = ''quay.io'', ov_Mirror = ''proxy:5000''\<rparr> =
     server_line ''quay.io'' @ host_block ''http://proxy:5000'' @ ''  skip_verify = true\<newline>''"
    using generateHostsToml_skip_verify
      [of "\<lparr>ov_Original = ''quay.io'', ov_Mirror = ''proxy:5000''\<rparr>"]
    by (simp add: HasPrefix_def)
  from plain secure_text secure_line bare show ?thesis by blast
qed

section \<open>Properties of the credential search\<close>

lemma FindCredentials_loop_skip:
  "\<not> usable L H candidate \<Longrightarrow>
   FindCredentials_loop L H (candidate # rest) = FindCredentials_loop L H rest"
  by (auto simp: usable_def Let_def split: prod.splits option.splits sum.splits)

lemma FindCredentials_loop_take:
  "usable L H candidate \<Longrightarrow>
   \<exists>cfg. Unmarshal_dockerConfig L (fst (ReadFile H (expandPath L H (cp_path candidate)))) = Inr cfg \<and>
         FindCredentials_loop L H (candidate # rest) =
           Some (credentialInfo L candidate (expandPath L H (cp_path candidate)) cfg)"
  by (auto simp: usable_def Let_def split: prod.splits option.splits sum.splits)

lemma FindCredentials_loop_none:
  "(\<forall>candidate \<in> set paths. \<not> usable L H candidate) \<Longrightarrow> FindCredentials_loop L H paths = None"
proof (induction paths)
  case Nil
  then show ?case by simp
next
  case (Cons candidate rest)
  then have "\<not> usable L H candidate" by simp
  from FindCredentials_loop_skip [OF this] Cons show ?case by simp
qed

lemma FindCredentials_loop_skipped:
  "(\<forall>candidate \<in> set skipped. \<not> usable L H candidate) \<Longrightarrow>
   FindCredentials_loop L H (skipped @ rest) = FindCredentials_loop L H rest"
proof (induction skipped)
  case Nil
  then show ?case by simp
next
  case (Cons candidate skipped)
  then have "\<not> usable L H candidate" by simp
  from FindCredentials_loop_skip [OF this] Cons show ?case by simp
qed

text \<open>
  Claim C5, as amended. In the search of \<open>FindCredentials\<close>, a candidate file that exists
  but does not parse is skipped and the search goes on with the next candidate. The search
  returns the first candidate that exists, can be read and parses, and it fails only when no
  candidate does.
\<close>

theorem FindCredentials_skips_unparsable:
  "(Stat H (expandPath L H (cp_path candidate)) = None \<and>
    isl (Unmarshal_dockerConfig L (fst (ReadFile H (expandPath L H (cp_path candidate))))) \<longrightarrow>
      FindCredentials_loop L H (candidate # rest) = FindCredentials_loop L H rest) \<and>
   (candidatePaths L H ri = skipped @ found # later \<and>
    (\<forall>c \<in> set skipped. \<not> usable L H c) \<and> usable L H found \<longrightarrow>
      (\<exists>cfg. Unmarshal_dockerConfig L (fst (ReadFile H (expandPath L H (cp_path found)))) = Inr cfg \<and>
             FindCredentials L H ri =
               Inr (credentialInfo L found (expandPath L H (cp_path found)) cfg))) \<and>
   ((\<forall>c \<in> set (candidatePaths L H ri). \<not> usable L H c) \<longrightarrow>
      FindCredentials L H ri =
        Inl (NoRegistryCredentials
               (strings_Join (pathStrings L H (candidatePaths L H ri)) '', '')))"
proof (intro conjI impI)
  assume "Stat H (expandPath L H (cp_path candidate)) = None \<and>
    isl (Unmarshal_dockerConfig L (fst (ReadFile H (expandPath L H (cp_path candidate)))))"
  then have "\<not> usable L H candidate" by (simp add: usable_def Let_def)
  then show "FindCredentials_loop L H (candidate # rest) = FindCredentials_loop L H rest"
    by (rule FindCredentials_loop_skip)
next
  assume a: "candidatePaths L H ri = skipped @ found # later \<and>
    (\<forall>c \<in> set skipped. \<not> usable L H c) \<and> usable L H found"
  then have "FindCredentials_loop L H (candidatePaths L H ri) =
      FindCredentials_loop L H (found # later)"
    using FindCredentials_loop_skipped [of skipped L H "found # later"] by simp
  moreover from a obtain cfg where
    "Unmarshal_dockerConfig L (fst (ReadFile H (expandPath L H (cp_path found)))) = Inr cfg"
    "FindCredentials_loop L H (found # later) =
       Some (credentialInfo L found (expandPath L H (cp_path found)) cfg)"
    using FindCredentials_loop_take [of L H found later] by blast
  ultimately show "\<exists>cfg. Unmarshal_dockerConfig L (fst (ReadFile H (expandPath L H (cp_path found)))) = Inr cfg \<and>
             FindCredentials L H ri =
               Inr (credentialInfo L found (expandPath L H (cp_path found)) cfg)"
    by (auto simp: FindCredentials_def Let_def)
next
  assume "\<forall>c \<in> set (candidatePaths L H ri). \<not> usable L H c"
  then have "FindCredentials_loop L H (candidatePaths L H ri) = None"
    by (rule FindCredentials_loop_none)
  then show "FindCredentials L H ri =
        Inl (NoRegistryCredentials
               (strings_Join (pathStrings L H (candidatePaths L H ri)) '', ''))"
    by (simp add: FindCredentials_def Let_def)
qed

lemmas cred_eval = cred_lib_def cred_host_def docker_runtime_def mock_lib_def mock_host_def
  mock_json_def candidatePaths_def expandPath_def HasPrefix_def Let_def runtime_consts
  RuntimeInfo_zero_def

lemma cred_candidates:
  "candidatePaths cred_lib cred_host docker_runtime =
     [\<lparr>cp_path = ''/cfg/config.json'', cp_source = ''docker''\<rparr>,
      \<lparr>cp_path = ''~/.docker/config.json'', cp_source = ''docker''\<rparr>]"
  by (simp add: cred_eval)

lemma cred_first_unparsable:
  "Stat cred_host (expandPath cred_lib cred_host ''/cfg/config.json'') = None \<and>
   isl (Unmarshal_dockerConfig cred_lib
          (fst (ReadFile cred_host (expandPath cred_lib cred_host ''/cfg/config.json''))))"
  by (simp add: cred_eval good_json_def)

lemma cred_second_usable:
  "expandPath cred_lib cred_host ''~/.docker/config.json'' = ''/home/u/.docker/config.json'' \<and>
   usable cred_lib cred_host \<lparr>cp_path = ''~/.docker/config.json'', cp_source = ''docker''\<rparr>"
  by (simp add: cred_eval usable_def good_json_def)

text \<open>
  The first candidate exists and does not parse, and the search still returns the second
  candidate.
\<close>

theorem FindCredentials_unparsable_counterexample:
  "cp_path (hd (candidatePaths cred_lib cred_host docker_runtime)) = ''/cfg/config.json'' \<and>
   Stat cred_host ''/cfg/config.json'' = None \<and>
   isl (Unmarshal_dockerConfig cred_lib (fst (ReadFile cred_host ''/cfg/config.json''))) \<and>
   FindCredentials cred_lib cred_host docker_runtime =
     Inr (CredentialInfo_zero
            \<lparr>ci_FilePath := ''/home/u/.docker/config.json'',
             ci_Registries := [''ghcr.io''],
             ci_InlineAuth := True,
             ci_MountPath := ''/var/lib/kubelet/config.json'',
             ci_Source := ''docker''\<rparr>)"
  by (simp add: FindCredentials_def cred_candidates)
     (simp add: cred_eval good_json_def good_config_def credentialInfo_def
        CredentialInfo_zero_def)

theorem FindCredentials_skips_unparsable_witness:
  "FindCredentials_loop cred_lib cred_host (candidatePaths cred_lib cred_host docker_runtime) =
     FindCredentials_loop cred_lib cred_host
       [\<lparr>cp_path = ''~/.docker/config.json'', cp_source = ''docker''\<rparr>] \<and>
   FindCredentials cred_lib cred_host docker_runtime =
     Inr (credentialInfo cred_lib \<lparr>cp_path = ''~/.docker/config.json'', cp_source = ''docker''\<rparr>
            ''/home/u/.docker/config.json'' good_config)"
proof -
  let ?bad = "\<lparr>cp_path = ''/cfg/config.json'', cp_source = ''docker''\<rparr>"
  let ?good = "\<lparr>cp_path = ''~/.docker/config.json'', cp_source = ''docker''\<rparr>"
  note t = FindCredentials_skips_unparsable
    [of cred_host cred_lib ?bad "[?good]" docker_runtime "[?bad]" ?good "[]"]
  have skip: "FindCredentials_loop cred_lib cred_host [?bad, ?good] =
      FindCredentials_loop cred_lib cred_host [?good]"
    using t [THEN conjunct1] cred_first_unparsable by simp
  have bad: "\<not> usable cred_lib cred_host ?bad"
    using cred_first_unparsable by (simp add: usable_def Let_def)
  have cfg: "Unmarshal_dockerConfig cred_lib
      (fst (ReadFile cred_host ''/home/u/.docker/config.json'')) = Inr good_config"
    by (simp add: cred_eval)
  have found: "FindCredentials cred_lib cred_host docker_runtime =
     Inr (credentialInfo cred_lib ?good ''/home/u/.docker/config.json'' good_config)"
    using t [THEN conjunct2, THEN conjunct1] bad cred_second_usable cred_candidates cfg
    by simp
  from skip found show ?thesis by (simp add: cred_candidates)
qed

section \<open>Properties of the application of a mirror configuration\<close>















end
